theory Spec2Isabelle
  imports Main "HOL-Library.Word" "HOL-Library.Signed_Division"
begin

unbundle bit_operations_syntax

section \<open>Conventions of the embedding\<close>

text \<open>
  The two Go packages \<^verbatim>\<open>bin_img\<close> (img.go) and \<^verbatim>\<open>tspl\<close> (tspl.go) are embedded
  function by function.

  \<^item> A Go \<^verbatim>\<open>int\<close> is a HOL \<open>int\<close>. The buffers of the program are allocated with
    \<^verbatim>\<open>make\<close>, so every index and size that reaches a buffer is far below \<open>2^63\<close>; the
    embedding covers the executions in which no \<^verbatim>\<open>int\<close> operation overflows.
    Go's \<^verbatim>\<open>/\<close> and \<^verbatim>\<open>%\<close> truncate towards zero: they are \<open>sdiv\<close> and \<open>smod\<close>.
    \<^verbatim>\<open>>> 3\<close> on an \<^verbatim>\<open>int\<close> is an arithmetic shift (\<open>div 8\<close>), and \<^verbatim>\<open>& 7\<close> as
    well as \<^verbatim>\<open>uint(x) & 7\<close> keep the three low bits of the two's complement
    (\<open>mod 8\<close>).
  \<^item> A \<^verbatim>\<open>byte\<close> is an \<open>8 word\<close>, a \<^verbatim>\<open>uint32\<close> a \<open>32 word\<close>; a \<^verbatim>\<open>[]byte\<close> is a list of
    bytes, and text is the list of its ASCII codes.
  \<^item> A returned \<^verbatim>\<open>error\<close> and a run-time panic (index or slice bounds out of range)
    are both values \<open>Inl e\<close> of the result; \<open>Panic\<close> is the run-time fault.
  \<^item> A \<^verbatim>\<open>for v := lo; v < hi; v++\<close> loop is the recursive function \<open>for_loop\<close>.
\<close>

type_synonym byte = "8 word"

datatype error =
    InvalidDimensions      \<comment> \<open>binimg: invalid dimensions\<close>
  | WidthNotMultipleOf8    \<comment> \<open>binimg: width must be a multiple of 8\<close>
  | NotABitmapLine         \<comment> \<open>not a BITMAP line\<close>
  | InvalidHeaderFormat    \<comment> \<open>invalid BITMAP format\<close>
  | ScanFailed             \<comment> \<open>the error returned by fmt.Sscanf\<close>
  | InvalidImageSize       \<comment> \<open>invalid image size got width: .., height: ..\<close>
  | NilOverlay             \<comment> \<open>overlay is nil\<close>
  | NegativeOffset         \<comment> \<open>xOff/yOff must be >= 0\<close>
  | EmptyBase              \<comment> \<open>base is empty\<close>
  | BaseTooShort           \<comment> \<open>base body too short: need .. bytes, got ..\<close>
  | InvalidOverlaySize     \<comment> \<open>invalid overlay size: ..x..\<close>
  | OverlayOutOfBounds     \<comment> \<open>overlay out of bounds: ..\<close>
  | Panic                  \<comment> \<open>run-time panic: index or slice bounds out of range\<close>

definition bindE :: "error + 'a \<Rightarrow> ('a \<Rightarrow> error + 'b) \<Rightarrow> error + 'b" where
  "bindE m f = (case m of Inl e \<Rightarrow> Inl e | Inr v \<Rightarrow> f v)"

text \<open>\<^verbatim>\<open>xs[i]\<close> as a read and as a write, with Go's bounds check.\<close>

definition index :: "'a list \<Rightarrow> int \<Rightarrow> error + 'a" where
  "index xs i = (if 0 \<le> i \<and> i < int (length xs) then Inr (xs ! nat i) else Inl Panic)"

definition store :: "'a list \<Rightarrow> int \<Rightarrow> 'a \<Rightarrow> error + 'a list" where
  "store xs i v = (if 0 \<le> i \<and> i < int (length xs) then Inr (xs[nat i := v]) else Inl Panic)"

text \<open>A slice expression \<^verbatim>\<open>xs[lo:hi]\<close> panics unless \<open>0 \<le> lo \<le> hi \<le> cap(xs)\<close>; every
  slice of the program has its capacity equal to its length.\<close>

definition slice_ok :: "'a list \<Rightarrow> int \<Rightarrow> int \<Rightarrow> bool" where
  "slice_ok xs lo hi \<longleftrightarrow> 0 \<le> lo \<and> lo \<le> hi \<and> hi \<le> int (length xs)"

text \<open>\<^verbatim>\<open>for v := lo; v < hi; v++ { body }\<close>; a panic or error in the body ends the loop.\<close>

function for_loop :: "int \<Rightarrow> int \<Rightarrow> (int \<Rightarrow> 's \<Rightarrow> 'e + 's) \<Rightarrow> 's \<Rightarrow> 'e + 's" where
  "for_loop v hi body s =
     (if v < hi
      then (case body v s of Inl e \<Rightarrow> Inl e | Inr s' \<Rightarrow> for_loop (v + 1) hi body s')
      else Inr s)"
  by pat_completeness auto
termination
  by (relation "measure (\<lambda>(v, hi, body, s). nat (hi - v))") auto

declare for_loop.simps [simp del]

section \<open>Package bin-img: the packed binary image (img.go)\<close>

subsection \<open>image.Rectangle\<close>

record Rectangle =
  MinX :: int
  MinY :: int
  MaxX :: int
  MaxY :: int

definition Dx :: "Rectangle \<Rightarrow> int" where
  "Dx r = MaxX r - MinX r"

definition Dy :: "Rectangle \<Rightarrow> int" where
  "Dy r = MaxY r - MinY r"

text \<open>\<^verbatim>\<open>image.Pt(x, y).In(r)\<close>\<close>

definition Pt_In :: "int \<Rightarrow> int \<Rightarrow> Rectangle \<Rightarrow> bool" where
  "Pt_In x y r \<longleftrightarrow> MinX r \<le> x \<and> x < MaxX r \<and> MinY r \<le> y \<and> y < MaxY r"

definition Empty :: "Rectangle \<Rightarrow> bool" where
  "Empty r \<longleftrightarrow> MinX r \<ge> MaxX r \<or> MinY r \<ge> MaxY r"

definition ZR :: Rectangle where
  "ZR = \<lparr>MinX = 0, MinY = 0, MaxX = 0, MaxY = 0\<rparr>"

definition Intersect :: "Rectangle \<Rightarrow> Rectangle \<Rightarrow> Rectangle" where
  "Intersect r s =
     (let r' = \<lparr>MinX = max (MinX r) (MinX s), MinY = max (MinY r) (MinY s),
                MaxX = min (MaxX r) (MaxX s), MaxY = min (MaxY r) (MaxY s)\<rparr>
      in if Empty r' then ZR else r')"

subsection \<open>Binary\<close>

record Binary =
  Pix :: "byte list"
  Stride :: int
  Rect :: Rectangle

definition NewBinary :: "int \<Rightarrow> int \<Rightarrow> error + Binary" where
  "NewBinary w h =
     (if w \<le> 0 \<or> h \<le> 0 then Inl InvalidDimensions
      else if w smod 8 \<noteq> 0 then Inl WidthNotMultipleOf8
      else let stride = w sdiv 8
           in Inr \<lparr>Pix = replicate (nat (stride * h)) 0, Stride = stride,
                   Rect = \<lparr>MinX = 0, MinY = 0, MaxX = w, MaxY = h\<rparr>\<rparr>)"

definition Bounds :: "Binary \<Rightarrow> Rectangle" where
  "Bounds b = Rect b"

definition pixOffset :: "Binary \<Rightarrow> int \<Rightarrow> int \<Rightarrow> int" where
  "pixOffset b x y = (y - MinY (Rect b)) * Stride b + (x - MinX (Rect b)) sdiv 8"

text \<open>\<^verbatim>\<open>byte(0x80 >> (uint(x) & 7))\<close>, most significant bit first.\<close>

definition msb_mask :: "int \<Rightarrow> byte" where
  "msb_mask x = drop_bit (nat (x mod 8)) (0x80 :: byte)"

text \<open>\<^verbatim>\<open>func (b *Binary) bit(x, y int) bool\<close>: no bounds check of its own; the index
  into \<^verbatim>\<open>b.Pix\<close> panics when it is out of range.\<close>

definition bit_px :: "Binary \<Rightarrow> int \<Rightarrow> int \<Rightarrow> error + bool" where
  "bit_px b x y =
     bindE (index (Pix b) (pixOffset b x y)) (\<lambda>v. Inr (v AND msb_mask x \<noteq> 0))"

definition setBit :: "Binary \<Rightarrow> int \<Rightarrow> int \<Rightarrow> bool \<Rightarrow> error + Binary" where
  "setBit b x y on =
     (let i = pixOffset b x y; mask = msb_mask x
      in bindE (index (Pix b) i) (\<lambda>v.
         bindE (store (Pix b) i (if on then v OR mask else v AND NOT mask)) (\<lambda>pix.
         Inr (b\<lparr>Pix := pix\<rparr>))))"

definition SetOn :: "Binary \<Rightarrow> int \<Rightarrow> int \<Rightarrow> error + Binary" where
  "SetOn b x y = setBit b x y True"

definition SetOff :: "Binary \<Rightarrow> int \<Rightarrow> int \<Rightarrow> error + Binary" where
  "SetOff b x y = setBit b x y False"

definition IsWhite :: "Binary \<Rightarrow> int \<Rightarrow> int \<Rightarrow> error + bool" where
  "IsWhite b x y = bit_px b x y"

definition IsBlack :: "Binary \<Rightarrow> int \<Rightarrow> int \<Rightarrow> error + bool" where
  "IsBlack b x y = bindE (bit_px b x y) (\<lambda>v. Inr (\<not> v))"

text \<open>\<^verbatim>\<open>At\<close> returns \<^verbatim>\<open>color.Gray{0}\<close> or \<^verbatim>\<open>color.Gray{255}\<close>; the result is the gray
  level. It is the bounds-checked read of the package.\<close>

definition At :: "Binary \<Rightarrow> int \<Rightarrow> int \<Rightarrow> error + byte" where
  "At b x y =
     (if \<not> Pt_In x y (Rect b) then Inr 0
      else bindE (bit_px b x y) (\<lambda>v. Inr (if v then 255 else 0)))"

text \<open>\<^verbatim>\<open>BinaryModel.Convert(c)\<close> on the channels \<^verbatim>\<open>c.RGBA()\<close>, and \<^verbatim>\<open>Set\<close>.\<close>

record RGBA =
  red :: "32 word"
  green :: "32 word"
  blue :: "32 word"
  alpha :: "32 word"

definition BinaryModel :: "RGBA \<Rightarrow> byte" where
  "BinaryModel c =
     (if alpha c = 0 then 0
      else let y = (299 * red c + 587 * green c + 114 * blue c) div 1000
           in if y \<ge> 0x8000 then 255 else 0)"

definition Set :: "Binary \<Rightarrow> int \<Rightarrow> int \<Rightarrow> RGBA \<Rightarrow> error + Binary" where
  "Set b x y c =
     (if \<not> Pt_In x y (Rect b) then Inr b
      else setBit b x y (BinaryModel c \<ge> 128))"

text \<open>\<^verbatim>\<open>SubImage\<close>: a view of the same bytes from the offset of its top-left corner. The
  embedding passes buffers by value, so the view holds the bytes it sees.\<close>

definition SubImage :: "Binary \<Rightarrow> Rectangle \<Rightarrow> error + Binary" where
  "SubImage b r0 =
     (let r = Intersect r0 (Rect b)
      in if Empty r then Inr \<lparr>Pix = [], Stride = 0, Rect = r\<rparr>
         else let off = pixOffset b (MinX r) (MinY r)
              in if \<not> slice_ok (Pix b) off (int (length (Pix b))) then Inl Panic
                 else Inr \<lparr>Pix = drop (nat off) (Pix b), Stride = Stride b, Rect = r\<rparr>)"

definition Fill :: "Binary \<Rightarrow> bool \<Rightarrow> Binary" where
  "Fill b on = b\<lparr>Pix := map (\<lambda>_. if on then 0xFF else 0x00) (Pix b)\<rparr>"

subsection \<open>The pixel source image.Image\<close>

text \<open>
  An \<^verbatim>\<open>image.Image\<close> is used through \<^verbatim>\<open>Bounds()\<close>, \<^verbatim>\<open>At(x, y).RGBA()\<close> and the type
  assertion \<^verbatim>\<open>img.(*bin_img.Binary)\<close>: it is a \<open>Binary\<close>, or any other source given by its
  bounds and its channels at each point. \<^verbatim>\<open>color.Gray{Y}.RGBA()\<close> is
  \<^verbatim>\<open>y := uint32(Y); y |= y << 8; return y, y, y, 0xffff\<close>.
\<close>

datatype image = BinaryImage Binary | OtherImage Rectangle "int \<Rightarrow> int \<Rightarrow> RGBA"

definition Gray_RGBA :: "byte \<Rightarrow> RGBA" where
  "Gray_RGBA g = (let y = (ucast g :: 32 word); y' = y OR push_bit 8 y
                  in \<lparr>red = y', green = y', blue = y', alpha = 0xFFFF\<rparr>)"

fun image_Bounds :: "image \<Rightarrow> Rectangle" where
  "image_Bounds (BinaryImage b) = Bounds b"
| "image_Bounds (OtherImage r f) = r"

fun image_RGBA :: "image \<Rightarrow> int \<Rightarrow> int \<Rightarrow> error + RGBA" where
  "image_RGBA (BinaryImage b) x y = bindE (At b x y) (\<lambda>g. Inr (Gray_RGBA g))"
| "image_RGBA (OtherImage r f) x y = Inr (f x y)"

subsection \<open>FromGrayThreshold\<close>

text \<open>\<^verbatim>\<open>y8 := uint8(((299*r + 587*g + 114*bl) / 1000) >> 8)\<close> in \<^verbatim>\<open>uint32\<close> arithmetic.\<close>

definition luma8 :: "RGBA \<Rightarrow> byte" where
  "luma8 c = ucast (drop_bit 8 ((299 * red c + 587 * green c + 114 * blue c) div 1000))"

definition threshold_on :: "RGBA \<Rightarrow> byte \<Rightarrow> bool" where
  "threshold_on c thresh = (if alpha c = 0 then False else luma8 c \<ge> thresh)"

text \<open>The body of the loop over \<open>y\<close>: \<^verbatim>\<open>row\<close> is the window \<open>lo..<hi\<close> of \<^verbatim>\<open>b.Pix\<close>; an
  index into \<^verbatim>\<open>row\<close> is checked against its length \<open>hi - lo\<close>.\<close>

definition FromGrayThreshold_row ::
    "Binary \<Rightarrow> image \<Rightarrow> byte \<Rightarrow> int \<Rightarrow> byte list \<Rightarrow> error + byte list" where
  "FromGrayThreshold_row b src thresh y pix =
     (let bounds = Rect b;
          lo = (y - MinY bounds) * Stride b;
          hi = (y - MinY bounds + 1) * Stride b
      in if \<not> slice_ok pix lo hi then Inl Panic
         else bindE (for_loop 0 (hi - lo) (\<lambda>i pix. store pix (lo + i) 0) pix) (\<lambda>pix.
              for_loop (MinX bounds) (MaxX bounds) (\<lambda>x pix.
                bindE (image_RGBA src x y) (\<lambda>c.
                  if threshold_on c thresh
                  then (let i = (x - MinX bounds) div 8
                        in if \<not> (0 \<le> i \<and> i < hi - lo) then Inl Panic
                           else bindE (index pix (lo + i)) (\<lambda>v.
                                store pix (lo + i) (v OR msb_mask x)))
                  else Inr pix)) pix))"

text \<open>The method \<^verbatim>\<open>func (b *Binary) FromGrayThreshold(src image.Image, thresh uint8)\<close>.\<close>

definition Binary_FromGrayThreshold :: "Binary \<Rightarrow> image \<Rightarrow> byte \<Rightarrow> error + Binary" where
  "Binary_FromGrayThreshold b src thresh =
     bindE (for_loop (MinY (Rect b)) (MaxY (Rect b)) (FromGrayThreshold_row b src thresh) (Pix b))
       (\<lambda>pix. Inr (b\<lparr>Pix := pix\<rparr>))"

text \<open>The function \<^verbatim>\<open>func FromGrayThreshold(src image.Image, thresh uint8)\<close>.\<close>

definition FromGrayThreshold :: "image \<Rightarrow> byte \<Rightarrow> error + Binary" where
  "FromGrayThreshold src thresh =
     bindE (NewBinary (Dx (image_Bounds src)) (Dy (image_Bounds src))) (\<lambda>b.
       Binary_FromGrayThreshold b src thresh)"

subsection \<open>Rotate180\<close>

text \<open>One exchange of two pixels, as both paths of the general branch do it.\<close>

definition swap_bits :: "Binary \<Rightarrow> int \<Rightarrow> int \<Rightarrow> int \<Rightarrow> int \<Rightarrow> error + Binary" where
  "swap_bits b x1 y1 x2 y2 =
     bindE (bit_px b x1 y1) (\<lambda>b1.
     bindE (bit_px b x2 y2) (\<lambda>b2.
     bindE (setBit b x1 y1 b2) (\<lambda>b'.
     setBit b' x2 y2 b1)))"

definition Rotate180_general :: "Binary \<Rightarrow> error + Binary" where
  "Rotate180_general b =
     (let w = Dx (Rect b); h = Dy (Rect b); minX = MinX (Rect b); minY = MinY (Rect b)
      in bindE (for_loop 0 (h sdiv 2) (\<lambda>y b.
                  let y1 = minY + y; y2 = minY + (h - 1 - y)
                  in for_loop 0 w (\<lambda>x b.
                       let x1 = minX + x; x2 = minX + (w - 1 - x)
                       in swap_bits b x1 y1 x2 y2) b) b) (\<lambda>b.
         if h smod 2 = 1
         then (let y = minY + h sdiv 2
               in for_loop 0 (w sdiv 2) (\<lambda>x b.
                    let x1 = minX + x; x2 = minX + (w - 1 - x)
                    in swap_bits b x1 y x2 y) b)
         else Inr b))"

text \<open>\<^verbatim>\<open>bits.Reverse8\<close> is \<open>word_reverse\<close> on a byte. \<^verbatim>\<open>row1[i]\<close> is \<^verbatim>\<open>b.Pix[off1 + i]\<close>.\<close>

definition swap_reversed :: "byte list \<Rightarrow> int \<Rightarrow> int \<Rightarrow> error + byte list" where
  "swap_reversed pix k1 k2 =
     bindE (index pix k1) (\<lambda>a.
     bindE (index pix k2) (\<lambda>c.
     bindE (store pix k1 (word_reverse c)) (\<lambda>pix'.
     store pix' k2 (word_reverse a))))"

definition Rotate180_fast :: "Binary \<Rightarrow> error + Binary" where
  "Rotate180_fast b =
     (let w = Dx (Rect b); h = Dy (Rect b); rowBytes = (w + 7) div 8
      in bindE (for_loop 0 (h sdiv 2) (\<lambda>y pix.
                  let off1 = y * Stride b; off2 = (h - 1 - y) * Stride b
                  in if \<not> slice_ok pix off1 (off1 + rowBytes) then Inl Panic
                     else if \<not> slice_ok pix off2 (off2 + rowBytes) then Inl Panic
                     else for_loop 0 rowBytes (\<lambda>i pix.
                            let j = rowBytes - 1 - i
                            in swap_reversed pix (off1 + i) (off2 + j)) pix) (Pix b)) (\<lambda>pix.
         bindE (if h smod 2 = 1
                then (let off = (h sdiv 2) * Stride b
                      in if \<not> slice_ok pix off (off + rowBytes) then Inl Panic
                         else bindE (for_loop 0 (rowBytes sdiv 2) (\<lambda>i pix.
                                   let j = rowBytes - 1 - i
                                   in swap_reversed pix (off + i) (off + j)) pix) (\<lambda>pix.
                              if rowBytes smod 2 = 1
                              then (let mid = rowBytes sdiv 2
                                    in bindE (index pix (off + mid)) (\<lambda>m.
                                       store pix (off + mid) (word_reverse m)))
                              else Inr pix))
                else Inr pix) (\<lambda>pix.
         Inr (b\<lparr>Pix := pix\<rparr>))))"

definition Rotate180 :: "Binary \<Rightarrow> error + Binary" where
  "Rotate180 b =
     (let w = Dx (Rect b); h = Dy (Rect b)
      in if w \<le> 1 \<and> h \<le> 1 then Inr b
         else let rowBytes = (w + 7) div 8
              in if rowBytes \<le> 0 then Inr b
                 else if MinX (Rect b) mod 8 \<noteq> 0 \<or> w mod 8 \<noteq> 0 then Rotate180_general b
                 else Rotate180_fast b)"

section \<open>Package tspl: the BITMAP command codec (tspl.go)\<close>

subsection \<open>Text as bytes; fmt.Sprintf("%d")\<close>

definition bytes_of :: "string \<Rightarrow> byte list" where
  "bytes_of s = map of_char s"

definition comma :: byte where
  "comma = 0x2C"

fun digits_of :: "nat \<Rightarrow> byte list" where
  "digits_of n = (if n < 10 then [0x30 + of_nat n]
                  else digits_of (n div 10) @ [0x30 + of_nat (n mod 10)])"

declare digits_of.simps [simp del]

text \<open>The verb \<^verbatim>\<open>%d\<close> of \<^verbatim>\<open>fmt.Sprintf\<close>: decimal digits, a minus sign when negative.\<close>

definition itoa :: "int \<Rightarrow> byte list" where
  "itoa i = (if i < 0 then 0x2D # digits_of (nat (- i)) else digits_of (nat i))"

subsection \<open>fmt.Sscanf(string(body), "BITMAP %d,%d,%d,%d,%d,", ...)\<close>

text \<open>
  \<^verbatim>\<open>fmt.Sscanf\<close> belongs to Go's standard library; it is modelled after fmt/scan.go for
  the one format string that \<^verbatim>\<open>ParseBitmapHeader\<close> uses. The input is read rune by
  rune from the UTF-8 text. Only three things are ever asked of a rune: whether it is a
  space of the table \<^verbatim>\<open>space\<close> of scan.go, whether it is a newline, and whether it equals
  an ASCII character (a literal of the format, a sign or a digit); a rune of several
  bytes or an invalid byte equals no ASCII character.
\<close>

text \<open>The number of bytes of the leading rune when \<^verbatim>\<open>isSpace\<close> holds of it, else 0:
  U+0009..U+000D, U+0020, U+0085, U+00A0, U+1680, U+2000..U+200A, U+2028, U+2029,
  U+202F, U+205F, U+3000 in their UTF-8 encodings.\<close>

definition space_len :: "byte list \<Rightarrow> nat" where
  "space_len s =
     (case s of [] \<Rightarrow> 0
      | a # r \<Rightarrow>
          if (0x09 \<le> a \<and> a \<le> 0x0D) \<or> a = 0x20 then 1
          else (case r of [] \<Rightarrow> 0
            | b # r' \<Rightarrow>
                if a = 0xC2 \<and> (b = 0x85 \<or> b = 0xA0) then 2
                else (case r' of [] \<Rightarrow> 0
                  | c # _ \<Rightarrow>
                      if (a = 0xE1 \<and> b = 0x9A \<and> c = 0x80)
                         \<or> (a = 0xE2 \<and> b = 0x80 \<and> ((0x80 \<le> c \<and> c \<le> 0x8A) \<or> c = 0xA8 \<or> c = 0xA9 \<or> c = 0xAF))
                         \<or> (a = 0xE2 \<and> b = 0x81 \<and> c = 0x9F)
                         \<or> (a = 0xE3 \<and> b = 0x80 \<and> c = 0x80)
                      then 3 else 0)))"

definition is_newline :: "byte list \<Rightarrow> bool" where
  "is_newline s = (case s of [] \<Rightarrow> False | a # _ \<Rightarrow> a = 0x0A)"

text \<open>\<^verbatim>\<open>for isSpace(inputc) && inputc != '\n' { inputc = s.getRune() }\<close> followed by
  \<^verbatim>\<open>UnreadRune\<close>: the rest of the input from the first rune that is not such a space.\<close>

function skip_blanks :: "byte list \<Rightarrow> byte list" where
  "skip_blanks s =
     (if 0 < space_len s \<and> \<not> is_newline s then skip_blanks (drop (space_len s) s) else s)"
  by pat_completeness auto
termination
  by (relation "measure length") (auto simp: space_len_def split: list.splits)

declare skip_blanks.simps [simp del]

text \<open>\<^verbatim>\<open>(*ss).SkipSpace\<close> with \<^verbatim>\<open>nlIsSpace = false\<close>: a newline is an error (unexpected
  newline); a carriage return is a space whether or not a newline follows it.\<close>

function SkipSpace :: "byte list \<Rightarrow> error + byte list" where
  "SkipSpace s =
     (if s = [] then Inr []
      else if is_newline s then Inl ScanFailed
      else if 0 < space_len s then SkipSpace (drop (space_len s) s)
      else Inr s)"
  by pat_completeness auto
termination
  by (relation "measure length") (auto simp: space_len_def split: list.splits)

declare SkipSpace.simps [simp del]

text \<open>A space of the format that follows no newline (\<^verbatim>\<open>advance\<close>, space processing):
  the input is at its end, or has at least one space, which is not a newline; the spaces
  up to a newline are consumed.\<close>

definition advance_space :: "byte list \<Rightarrow> error + byte list" where
  "advance_space s =
     (if s = [] then Inr []
      else if space_len s = 0 then Inl ScanFailed
      else if is_newline s then Inl ScanFailed
      else Inr (skip_blanks s))"

text \<open>A literal of the format (\<^verbatim>\<open>advance\<close>, literals): \<^verbatim>\<open>mustReadRune\<close> fails at the end
  of the input, a different rune is "input does not match format".\<close>

definition literal :: "byte \<Rightarrow> byte list \<Rightarrow> error + byte list" where
  "literal c s = (case s of [] \<Rightarrow> Inl ScanFailed
                  | a # r \<Rightarrow> if a = c then Inr r else Inl ScanFailed)"

fun literals :: "byte list \<Rightarrow> byte list \<Rightarrow> error + byte list" where
  "literals [] s = Inr s"
| "literals (c # cs) s = bindE (literal c s) (literals cs)"

text \<open>The characters \<^verbatim>\<open>scanNumber\<close> accepts for the verb \<^verbatim>\<open>%d\<close>: \<^verbatim>\<open>"0123456789_"\<close>.\<close>

definition is_digit :: "byte \<Rightarrow> bool" where
  "is_digit c \<longleftrightarrow> 0x30 \<le> c \<and> c \<le> 0x39"

definition accepted :: "byte \<Rightarrow> bool" where
  "accepted c \<longleftrightarrow> is_digit c \<or> c = 0x5F"

fun decimal :: "nat \<Rightarrow> byte list \<Rightarrow> nat" where
  "decimal n [] = n"
| "decimal n (c # cs) = decimal (n * 10 + unat (c - 0x30)) cs"

text \<open>\<^verbatim>\<open>strconv.ParseInt(tok, 10, 64)\<close> on a token of an optional sign and accepted
  characters: an underscore is a syntax error in base 10, a value outside
  \<open>-2^63 .. 2^63 - 1\<close> a range error.\<close>

definition ParseInt :: "bool \<Rightarrow> byte list \<Rightarrow> error + int" where
  "ParseInt neg tok =
     (if tok = [] \<or> \<not> list_all is_digit tok then Inl ScanFailed
      else let un = int (decimal 0 tok)
           in if \<not> neg \<and> un \<ge> 2 ^ 63 then Inl ScanFailed
              else if neg \<and> un > 2 ^ 63 then Inl ScanFailed
              else Inr (if neg then - un else un))"

text \<open>The verb \<^verbatim>\<open>%d\<close>: \<^verbatim>\<open>doScanf\<close> skips spaces, then \<^verbatim>\<open>scanInt\<close> skips spaces again,
  requires input (\<^verbatim>\<open>notEOF\<close>), accepts one sign, and \<^verbatim>\<open>scanNumber\<close> requires input and
  at least one accepted character and takes all that follow.\<close>

definition scanInt :: "byte list \<Rightarrow> error + (int \<times> byte list)" where
  "scanInt s0 =
     bindE (SkipSpace s0) (\<lambda>s1.
     bindE (SkipSpace s1) (\<lambda>s.
       case s of [] \<Rightarrow> Inl ScanFailed
       | a # r \<Rightarrow>
           let signed = (a = 0x2B \<or> a = 0x2D);
               neg = (a = 0x2D);
               s' = (if signed then r else s)
           in if s' = [] then Inl ScanFailed
              else if \<not> accepted (hd s') then Inl ScanFailed
              else bindE (ParseInt neg (takeWhile accepted s')) (\<lambda>i.
                   Inr (i, dropWhile accepted s'))))"

definition Sscanf_BITMAP :: "byte list \<Rightarrow> error + (int \<times> int \<times> int \<times> int \<times> int)" where
  "Sscanf_BITMAP str =
     bindE (literals (bytes_of ''BITMAP'') str) (\<lambda>s.
     bindE (advance_space s) (\<lambda>s.
     bindE (scanInt s) (\<lambda>(x, s).
     bindE (literal comma s) (\<lambda>s.
     bindE (scanInt s) (\<lambda>(y, s).
     bindE (literal comma s) (\<lambda>s.
     bindE (scanInt s) (\<lambda>(rowBytes, s).
     bindE (literal comma s) (\<lambda>s.
     bindE (scanInt s) (\<lambda>(height, s).
     bindE (literal comma s) (\<lambda>s.
     bindE (scanInt s) (\<lambda>(mode, s).
     bindE (literal comma s) (\<lambda>s.
     Inr (x, y, rowBytes, height, mode)))))))))))))"

subsection \<open>ParseBitmapHeader\<close>

record BitmapHeader =
  RowBytes :: int
  Width :: int
  Height :: int
  HeaderEnd :: int

text \<open>\<^verbatim>\<open>bytes.HasPrefix\<close>\<close>

definition HasPrefix :: "byte list \<Rightarrow> byte list \<Rightarrow> bool" where
  "HasPrefix s p \<longleftrightarrow> length s \<ge> length p \<and> take (length p) s = p"

text \<open>The loop \<^verbatim>\<open>for i, b := range body\<close> of \<^verbatim>\<open>ParseBitmapHeader\<close>, from index \<open>i\<close> with
  \<open>commaCount\<close> commas seen: the index of the fifth comma, or \<open>-1\<close>.\<close>

fun fifth_comma :: "byte list \<Rightarrow> int \<Rightarrow> int \<Rightarrow> int" where
  "fifth_comma [] i commaCount = -1"
| "fifth_comma (b # bs) i commaCount =
     (if b = comma
      then (if commaCount + 1 = 5 then i else fifth_comma bs (i + 1) (commaCount + 1))
      else fifth_comma bs (i + 1) commaCount)"

definition ParseBitmapHeader :: "byte list \<Rightarrow> error + BitmapHeader" where
  "ParseBitmapHeader body =
     (if HasPrefix body (bytes_of ''BITMAP'')
      then (let headerEnd = fifth_comma body 0 0
            in if headerEnd = -1 then Inl InvalidHeaderFormat
               else bindE (Sscanf_BITMAP body) (\<lambda>(x, y, rowBytes, height, mode).
                    Inr \<lparr>RowBytes = rowBytes, Width = rowBytes * 8, Height = height,
                         HeaderEnd = headerEnd + 1\<rparr>))
      else Inl NotABitmapLine)"

subsection \<open>Header, Image2Bytes and Encode\<close>

record Options =
  Peel :: bool

definition crlf :: "byte list" where
  "crlf = [0x0D, 0x0A]"

text \<open>
  \<^verbatim>\<open>Header\<close> prints \<^verbatim>\<open>float64(w)/float64(dpm)\<close> with the verb \<^verbatim>\<open>%.1f\<close>. Floating point is
  outside the embedding: \<open>size_text w dpm\<close> stands for that text and is a parameter.
  \<^verbatim>\<open>cmp.Or(dpm, 8)\<close> is \<open>dpm\<close> unless it is zero.
\<close>

text \<open>The text of \<^verbatim>\<open>%.1f\<close> for a size that is a whole number of units (\<open>dpm\<close> divides
  \<open>w\<close>): the quotient followed by \<^verbatim>\<open>.0\<close>. It is the instance of \<open>size_text\<close> of the
  concrete examples.\<close>

definition whole_size_text :: "int \<Rightarrow> int \<Rightarrow> byte list" where
  "whole_size_text w dpm = itoa (w sdiv dpm) @ bytes_of ''.0''"

definition Header :: "(int \<Rightarrow> int \<Rightarrow> byte list) \<Rightarrow> int \<Rightarrow> int \<Rightarrow> int \<Rightarrow> Options \<Rightarrow> byte list" where
  "Header size_text w h dpm0 opt =
     (let dpm = (if dpm0 \<noteq> 0 then dpm0 else 8);
          peel = (if Peel opt then bytes_of ''ON'' else bytes_of ''OFF'')
      in bytes_of ''SET CUTTER OFF'' @ crlf @ bytes_of ''SET PARTICAL_CUTTER OFF'' @ crlf
         @ bytes_of ''SET PEEL '' @ peel @ crlf
         @ bytes_of ''SIZE '' @ size_text w dpm @ bytes_of '' mm, '' @ size_text h dpm
         @ bytes_of '' mm'' @ crlf @ bytes_of ''CLS'' @ crlf)"

text \<open>\<^verbatim>\<open>bitmap[byteIndex] |= 1 << bitIndex\<close> for a white pixel.\<close>

definition Image2Bytes_pixel :: "Binary \<Rightarrow> int \<Rightarrow> int \<Rightarrow> int \<Rightarrow> int \<Rightarrow> byte list \<Rightarrow> error + byte list" where
  "Image2Bytes_pixel bwImg headerSize rowBytes y x bitmap =
     bindE (IsWhite bwImg x y) (\<lambda>white.
       if white
       then (let byteIndex = headerSize + y * rowBytes + x sdiv 8;
                 bitIndex = 7 - (x smod 8)
             in bindE (index bitmap byteIndex) (\<lambda>v.
                store bitmap byteIndex (v OR push_bit (nat bitIndex) 1)))
       else Inr bitmap)"

text \<open>\<^verbatim>\<open>make([]byte, n)\<close> panics for a negative \<open>n\<close>; \<^verbatim>\<open>copy(bitmap[0:], header)\<close> copies
  as many bytes as the shorter of the two has.\<close>

definition Image2Bytes :: "image \<Rightarrow> error + (int \<times> byte list)" where
  "Image2Bytes img =
     bindE (case img of BinaryImage b \<Rightarrow> Inr b | OtherImage r f \<Rightarrow> FromGrayThreshold img 151)
       (\<lambda>bwImg.
        let bounds = Bounds bwImg;
            width = Dx bounds; height = Dy bounds;
            rowBytes = (width + 7) sdiv 8;
            header = bytes_of ''BITMAP 0,0,'' @ itoa rowBytes @ [comma] @ itoa height
                     @ bytes_of '',1,'';
            headerSize = int (length header);
            n = headerSize + rowBytes * height
        in if n < 0 then Inl Panic
           else let bitmap = take (nat n) header @ replicate (nat n - length header) 0
                in bindE (for_loop 0 height (\<lambda>y bitmap.
                            for_loop 0 width (Image2Bytes_pixel bwImg headerSize rowBytes y) bitmap)
                          bitmap)
                     (\<lambda>bitmap. Inr (headerSize, bitmap)))"

definition Encode ::
    "(int \<Rightarrow> int \<Rightarrow> byte list) \<Rightarrow> int \<Rightarrow> int \<Rightarrow> int \<Rightarrow> image \<Rightarrow> Options \<Rightarrow> error + byte list" where
  "Encode size_text w h dpm img opt =
     bindE (Image2Bytes img) (\<lambda>(headerSize, bitmap).
       let header = Header size_text w h dpm opt;
           tail = bytes_of ''PRINT 1,1'' @ crlf
       in Inr (header @ bitmap @ tail))"

subsection \<open>Bytes2Image\<close>

record Image =
  ImgHeader :: "byte list"
  ImgBitmap :: Binary
  ImgTail :: "byte list"

text \<open>The body of the loop over \<open>x\<close>; the state is the image and \<^verbatim>\<open>bodyEnd\<close>.\<close>

definition Bytes2Image_pixel ::
    "byte list \<Rightarrow> int \<Rightarrow> int \<Rightarrow> int \<Rightarrow> int \<Rightarrow> Binary \<times> int \<Rightarrow> error + (Binary \<times> int)" where
  "Bytes2Image_pixel body headerEnd rowBytes y x st =
     (let img = fst st;
          byteIndex = headerEnd + y * rowBytes + x sdiv 8
      in if byteIndex \<ge> int (length body) then Inr st
         else let bitIndex = 7 - (x smod 8)
              in bindE (index body byteIndex) (\<lambda>v.
                 if drop_bit (nat bitIndex) v AND 1 = 0
                 then bindE (SetOff img x y) (\<lambda>img'. Inr (img', byteIndex))
                 else bindE (SetOn img x y) (\<lambda>img'. Inr (img', byteIndex))))"

definition Bytes2Image :: "byte list \<Rightarrow> error + Image" where
  "Bytes2Image body =
     bindE (ParseBitmapHeader body) (\<lambda>h.
       let rowBytes = RowBytes h; width = Width h; height = Height h; headerEnd = HeaderEnd h
       in if width \<le> 0 \<or> height \<le> 0 then Inl InvalidImageSize
          else bindE (NewBinary width height) (\<lambda>img.
               bindE (for_loop 0 height (\<lambda>y st.
                        for_loop 0 width (Bytes2Image_pixel body headerEnd rowBytes y) st)
                      (img, headerEnd)) (\<lambda>(img, bodyEnd).
                 if \<not> slice_ok body 0 headerEnd then Inl Panic
                 else if \<not> slice_ok body (bodyEnd + 1) (int (length body)) then Inl Panic
                 else Inr \<lparr>ImgHeader = take (nat headerEnd) body, ImgBitmap = img,
                           ImgTail = drop (nat (bodyEnd + 1)) body\<rparr>)))"

subsection \<open>OverlayBinary\<close>

text \<open>
  \<^verbatim>\<open>OverlayBinary\<close> reads the caller's slice \<^verbatim>\<open>base\<close> and writes a slice \<^verbatim>\<open>res\<close> that it
  makes. To tell the two apart the byte slices live in a heap, a list of buffers; a slice
  is the position of its buffer. \<^verbatim>\<open>make\<close> appends a zeroed buffer. A panic leaves the
  heap as it was when it was raised.
\<close>

type_synonym heap = "byte list list"

definition make :: "heap \<Rightarrow> nat \<Rightarrow> heap \<times> nat" where
  "make hp n = (hp @ [replicate n 0], length hp)"

text \<open>\<^verbatim>\<open>copy(dst, src)\<close>: the first \<open>min (len dst) (len src)\<close> bytes.\<close>

definition copy :: "heap \<Rightarrow> nat \<Rightarrow> nat \<Rightarrow> heap" where
  "copy hp dst src =
     hp[dst := take (length (hp ! dst)) (hp ! src) @ drop (length (hp ! src)) (hp ! dst)]"

definition setBitmapBit :: "heap \<Rightarrow> nat \<Rightarrow> int \<Rightarrow> int \<Rightarrow> int \<Rightarrow> int \<Rightarrow> byte \<Rightarrow> error + heap" where
  "setBitmapBit hp body headerEnd rowBytes x y bitv =
     (let byteIndex = headerEnd + y * rowBytes + x sdiv 8;
          bitIndex = 7 - (x smod 8);
          mask = (push_bit (nat bitIndex) 1 :: byte)
      in bindE (index (hp ! body) byteIndex) (\<lambda>v.
         bindE (store (hp ! body) byteIndex (if bitv = 0 then v AND NOT mask else v OR mask)) (\<lambda>buf.
         Inr (hp[body := buf]))))"

text \<open>The body of the loop over \<open>x\<close>; a failure carries the heap along.\<close>

definition OverlayBinary_pixel ::
    "Binary \<Rightarrow> nat \<Rightarrow> int \<Rightarrow> int \<Rightarrow> int \<Rightarrow> int \<Rightarrow> int \<Rightarrow> int \<Rightarrow> heap \<Rightarrow> (heap \<times> error) + heap" where
  "OverlayBinary_pixel overlay res baseHeaderEnd baseRowBytes xOff yOff y x hp =
     (let b = Bounds overlay
      in case IsWhite overlay (x + MinX b) (y + MinY b) of
           Inl e \<Rightarrow> Inl (hp, e)
         | Inr white \<Rightarrow>
             (let bitv = (if white then 1 else 0)
              in case setBitmapBit hp res baseHeaderEnd baseRowBytes (x + xOff) (y + yOff) bitv of
                   Inl e \<Rightarrow> Inl (hp, e)
                 | Inr hp' \<Rightarrow> Inr hp'))"

text \<open>A nil \<^verbatim>\<open>*Binary\<close> or \<^verbatim>\<open>*BitmapHeader\<close> is \<open>None\<close>. The result is the heap after the
  call together with the error or the returned slice.\<close>

definition OverlayBinary ::
    "heap \<Rightarrow> BitmapHeader option \<Rightarrow> nat \<Rightarrow> Binary option \<Rightarrow> int \<Rightarrow> int \<Rightarrow> heap \<times> (error + nat)" where
  "OverlayBinary hp baseHeader0 base overlay0 xOff yOff =
     (case overlay0 of None \<Rightarrow> (hp, Inl NilOverlay)
      | Some overlay \<Rightarrow>
        if xOff < 0 \<or> yOff < 0 then (hp, Inl NegativeOffset)
        else if length (hp ! base) = 0 then (hp, Inl EmptyBase)
        else (case (case baseHeader0 of None \<Rightarrow> ParseBitmapHeader (hp ! base)
                                      | Some bh \<Rightarrow> Inr bh) of
                Inl e \<Rightarrow> (hp, Inl e)
              | Inr baseHeader \<Rightarrow>
                (let baseRowBytes = RowBytes baseHeader; baseW = Width baseHeader;
                     baseH = Height baseHeader; baseHeaderEnd = HeaderEnd baseHeader;
                     baseBitmapLen = baseRowBytes * baseH
                 in if baseHeaderEnd + baseBitmapLen > int (length (hp ! base))
                    then (hp, Inl BaseTooShort)
                    else let b = Bounds overlay; ovW = Dx b; ovH = Dy b
                         in if ovW \<le> 0 \<or> ovH \<le> 0 then (hp, Inl InvalidOverlaySize)
                            else if xOff + ovW > baseW \<or> yOff + ovH > baseH
                            then (hp, Inl OverlayOutOfBounds)
                            else let (hp1, res) = make hp (length (hp ! base));
                                     hp2 = copy hp1 res base
                                 in case for_loop 0 ovH (\<lambda>y hp.
                                           for_loop 0 ovW
                                             (OverlayBinary_pixel overlay res baseHeaderEnd
                                                baseRowBytes xOff yOff y) hp) hp2 of
                                      Inl (hp', e) \<Rightarrow> (hp', Inl e)
                                    | Inr hp' \<Rightarrow> (hp', Inr res))))"

definition OverlayBinaryAtTopLeft ::
    "heap \<Rightarrow> BitmapHeader option \<Rightarrow> nat \<Rightarrow> Binary option \<Rightarrow> heap \<times> (error + nat)" where
  "OverlayBinaryAtTopLeft hp baseHeader base overlay = OverlayBinary hp baseHeader base overlay 0 0"

text \<open>The text that the format \<^verbatim>\<open>"BITMAP %d,%d,%d,%d,%d,"\<close> prints for five numbers.\<close>

definition bitmap_line :: "int \<Rightarrow> int \<Rightarrow> int \<Rightarrow> int \<Rightarrow> int \<Rightarrow> byte list" where
  "bitmap_line x y rowBytes height mode =
     bytes_of ''BITMAP '' @ itoa x @ [comma] @ itoa y @ [comma] @ itoa rowBytes @ [comma]
       @ itoa height @ [comma] @ itoa mode @ [comma]"

section \<open>Basic facts\<close>

lemma bindE_simps [simp]:
  "bindE (Inl e) f = Inl e"
  "bindE (Inr v) f = f v"
  by (simp_all add: bindE_def)

lemma bindE_eq_Inr_iff: "bindE m f = Inr r \<longleftrightarrow> (\<exists>v. m = Inr v \<and> f v = Inr r)"
  by (cases m) simp_all

lemma sdiv_nonneg [simp]: "0 \<le> x \<Longrightarrow> 0 < d \<Longrightarrow> (x::int) sdiv d = x div d"
  by (simp add: signed_divide_int_def sgn_if)

lemma smod_nonneg [simp]: "0 \<le> x \<Longrightarrow> 0 < d \<Longrightarrow> (x::int) smod d = x mod d"
  by (simp add: signed_modulo_int_def sgn_if)

text \<open>The invariant rule of the loop: an invariant that holds at the start and that
  every round keeps (the round not failing) holds at the end, and the loop does not fail.\<close>

lemma for_loop_rule:
  assumes "I lo s"
    and "\<And>v s. lo \<le> v \<Longrightarrow> v < hi \<Longrightarrow> I v s \<Longrightarrow> \<exists>s'. body v s = Inr s' \<and> I (v + 1) s'"
  shows "\<exists>s'. for_loop lo hi body s = Inr s' \<and> (if lo \<le> hi then I hi s' else s' = s)"
  using assms
proof (induction lo hi body s rule: for_loop.induct)
  case (1 v hi body s)
  show ?case
  proof (cases "v < hi")
    case True
    from 1(3)[of v s] True 1(2) obtain s1 where s1: "body v s = Inr s1" "I (v + 1) s1" by auto
    have "\<exists>s'. for_loop (v + 1) hi body s1 = Inr s' \<and> (if v + 1 \<le> hi then I hi s' else s' = s1)"
      apply (rule 1(1)[OF True s1(1) s1(2)])
      using 1(3) by force
    with True s1 show ?thesis by (subst for_loop.simps) auto
  next
    case False
    with 1(2) show ?thesis by (subst for_loop.simps) (auto simp: not_less dest: antisym)
  qed
qed

lemma for_loop_empty [simp]: "hi \<le> lo \<Longrightarrow> for_loop lo hi body s = Inr s"
  by (subst for_loop.simps) simp

lemma for_loop_step:
  "lo < hi \<Longrightarrow> for_loop lo hi body s =
     (case body lo s of Inl e \<Rightarrow> Inl e | Inr s' \<Rightarrow> for_loop (lo + 1) hi body s')"
  by (subst for_loop.simps) simp

subsection \<open>Masks and single bits of a byte\<close>

lemma msb_mask_eq: "msb_mask x = 2 ^ (7 - nat (x mod 8))"
proof -
  have "nat (x mod 8) < 8" by simp
  then consider "nat (x mod 8) = 0" | "nat (x mod 8) = 1" | "nat (x mod 8) = 2" | "nat (x mod 8) = 3"
    | "nat (x mod 8) = 4" | "nat (x mod 8) = 5" | "nat (x mod 8) = 6" | "nat (x mod 8) = 7"
    by linarith
  then show ?thesis
    by cases (simp_all add: msb_mask_def)
qed

lemma shl_mask_eq: "n < 8 \<Longrightarrow> (push_bit n 1 :: byte) = 2 ^ n"
  by (simp add: push_bit_eq_mult)

lemma bit_exp_byte: "n < 8 \<Longrightarrow> bit ((2::byte) ^ n) m \<longleftrightarrow> m = n"
  by (auto simp: bit_exp_iff)

lemma and_exp_ne0: "n < 8 \<Longrightarrow> ((v::byte) AND 2 ^ n \<noteq> 0) = bit v n"
  by (metis and_exp_eq_0_iff_not_bit bit_exp_byte)

lemma bit_or_exp: "n < 8 \<Longrightarrow> bit ((v::byte) OR 2 ^ n) m \<longleftrightarrow> (bit v m \<or> m = n)"
  by (auto simp: bit_or_iff bit_exp_byte)

lemma bit_andnot_exp: "n < 8 \<Longrightarrow> bit ((v::byte) AND NOT (2 ^ n)) m \<longleftrightarrow> (bit v m \<and> m \<noteq> n)"
  by (auto simp: bit_and_iff bit_not_iff bit_exp_byte dest: bit_imp_le_length)

lemma drop_and1: "(drop_bit n (v::byte) AND 1 = 0) = (\<not> bit v n)"
  by (simp add: bit_iff_and_drop_bit_eq_1 and_one_eq mod_2_eq_odd bit_iff_odd_drop_bit)

section \<open>ParseBitmapHeader\<close>

lemma digit_props:
  assumes "is_digit c"
  shows "space_len (c # r) = 0" "\<not> is_newline (c # r)" "c \<noteq> 0x2B" "c \<noteq> 0x2D" "accepted c" "c \<noteq> comma"
  using assms
  by (auto simp: is_digit_def space_len_def is_newline_def accepted_def comma_def word_le_nat_alt
      split: list.splits)

lemma comma_not_accepted [simp]: "\<not> accepted comma"
  by (simp add: accepted_def is_digit_def comma_def)

lemma SkipSpace_digit: "is_digit c \<Longrightarrow> SkipSpace (c # r) = Inr (c # r)"
  by (subst SkipSpace.simps) (simp add: digit_props)

lemma takeWhile_token:
  "list_all accepted tok \<Longrightarrow> rest = [] \<or> \<not> accepted (hd rest) \<Longrightarrow>
   takeWhile accepted (tok @ rest) = tok \<and> dropWhile accepted (tok @ rest) = rest"
  by (induction tok) (cases rest; auto)+

lemma scanInt_token:
  assumes "tok \<noteq> []" "list_all is_digit tok" "decimal 0 tok < 2 ^ 63"
    and "rest = [] \<or> \<not> accepted (hd rest)"
  shows "scanInt (tok @ rest) = Inr (int (decimal 0 tok), rest)"
proof -
  from assms(1) obtain c r where tok: "tok = c # r" by (cases tok) auto
  with assms(2) have c: "is_digit c" by simp
  have acc: "list_all accepted tok"
    using assms(2) by (simp add: list_all_iff accepted_def)
  have tw: "takeWhile accepted (c # r @ rest) = tok" "dropWhile accepted (c # r @ rest) = rest"
    using takeWhile_token[OF acc assms(4)] tok by simp_all
  have lt: "int (decimal 0 tok) < 2 ^ 63"
    using assms(3) by (metis of_nat_less_iff of_nat_numeral of_nat_power)
  have "scanInt (c # r @ rest) =
          bindE (ParseInt False (takeWhile accepted (c # r @ rest)))
            (\<lambda>i. Inr (i, dropWhile accepted (c # r @ rest)))"
    using c by (simp add: scanInt_def SkipSpace_digit digit_props Let_def
        del: takeWhile.simps dropWhile.simps)
  also have "\<dots> = bindE (ParseInt False tok) (\<lambda>i. Inr (i, rest))"
    by (simp only: tw)
  also have "ParseInt False tok = Inr (int (decimal 0 tok))"
    using assms(1,2) lt by (simp add: ParseInt_def)
  finally show ?thesis by (simp add: tok)
qed

lemma decimal_append: "decimal a (xs @ ys) = decimal (decimal a xs) ys"
  by (induction xs arbitrary: a) auto

lemma digit_byte: "d < 10 \<Longrightarrow> is_digit (0x30 + of_nat d) \<and> unat ((0x30 :: byte) + of_nat d - 0x30) = d"
proof -
  assume "d < 10"
  then have "d = 0 \<or> d = 1 \<or> d = 2 \<or> d = 3 \<or> d = 4 \<or> d = 5 \<or> d = 6 \<or> d = 7 \<or> d = 8 \<or> d = 9"
    by arith
  then show ?thesis by (elim disjE) (simp_all add: is_digit_def)
qed

lemma digits_of_props:
  "digits_of n \<noteq> [] \<and> list_all is_digit (digits_of n) \<and> decimal 0 (digits_of n) = n"
proof (induction n rule: digits_of.induct)
  case (1 n)
  show ?case
  proof (cases "n < 10")
    case True
    then show ?thesis using digit_byte[of n] by (subst (1 2 3) digits_of.simps) simp
  next
    case False
    with 1 have ih: "digits_of (n div 10) \<noteq> []" "list_all is_digit (digits_of (n div 10))"
      "decimal 0 (digits_of (n div 10)) = n div 10" by auto
    have d: "n mod 10 < 10" by simp
    from False ih digit_byte[OF d] show ?thesis
      by (subst (1 2 3) digits_of.simps) (simp add: decimal_append)
  qed
qed

lemma scanInt_itoa:
  assumes "0 \<le> i" "i < 2 ^ 63" "rest = [] \<or> \<not> accepted (hd rest)"
  shows "scanInt (itoa i @ rest) = Inr (i, rest)"
proof -
  have "decimal 0 (digits_of (nat i)) < 2 ^ 63"
    using assms(1,2) digits_of_props[of "nat i"] by (simp add: nat_less_iff)
  from scanInt_token[OF _ _ this assms(3)] digits_of_props[of "nat i"] assms(1)
  show ?thesis by (simp add: itoa_def)
qed

lemma literal_comma [simp]: "literal comma (comma # s) = Inr s"
  by (simp add: literal_def)

lemma advance_space_digit: "is_digit c \<Longrightarrow> advance_space (0x20 # c # r) = Inr (c # r)"
  apply (simp add: advance_space_def space_len_def is_newline_def)
  apply (subst skip_blanks.simps)
  apply (simp add: space_len_def is_newline_def)
  apply (subst skip_blanks.simps)
  apply (simp add: digit_props)
  done

lemma itoa_nonneg_cons: "0 \<le> i \<Longrightarrow> \<exists>c r. itoa i = c # r \<and> is_digit c"
  using digits_of_props[of "nat i"] by (cases "digits_of (nat i)") (auto simp: itoa_def)

lemma Sscanf_BITMAP_line:
  assumes "0 \<le> x" "x < 2 ^ 63" "0 \<le> y" "y < 2 ^ 63" "0 \<le> rb" "rb < 2 ^ 63"
    "0 \<le> h" "h < 2 ^ 63" "0 \<le> m" "m < 2 ^ 63"
  shows "Sscanf_BITMAP (bitmap_line x y rb h m @ rest) = Inr (x, y, rb, h, m)"
proof -
  from itoa_nonneg_cons[OF assms(1)] obtain c r where cr: "itoa x = c # r" "is_digit c" by auto
  have lit: "literals (bytes_of ''BITMAP'') (bytes_of ''BITMAP '' @ t) = Inr (0x20 # t)" for t
    by (simp add: bytes_of_def literal_def)
  have sp: "advance_space (0x20 # itoa x @ t) = Inr (itoa x @ t)" for t
    using advance_space_digit[OF cr(2)] cr(1) by simp
  have s: "0 \<le> i \<Longrightarrow> i < 2 ^ 63 \<Longrightarrow> scanInt (itoa i @ comma # t) = Inr (i, comma # t)" for i t
    by (rule scanInt_itoa) simp_all
  show ?thesis
    using assms
    by (simp add: Sscanf_BITMAP_def bitmap_line_def lit sp s)
qed

lemma fifth_comma_skip:
  "comma \<notin> set xs \<Longrightarrow> fifth_comma (xs @ ys) i c = fifth_comma ys (i + int (length xs)) c"
  by (induction xs arbitrary: i) (auto simp: algebra_simps)

lemma comma_notin_itoa: "comma \<notin> set (itoa i)"
proof -
  have "comma \<notin> set (digits_of n)" for n
    using digits_of_props[of n] by (auto simp: list_all_iff dest: digit_props(6))
  then show ?thesis by (simp add: itoa_def comma_def)
qed

lemma fifth_comma_line:
  "fifth_comma (bitmap_line x y rb h m @ rest) 0 0 = int (length (bitmap_line x y rb h m)) - 1"
proof -
  have a: "fifth_comma (itoa i @ comma # t) j c =
        (if c + 1 = 5 then j + int (length (itoa i)) else fifth_comma t (j + int (length (itoa i)) + 1) (c + 1))" for i t j c
    using fifth_comma_skip[OF comma_notin_itoa, of i "comma # t" j c] by simp
  have len: "length (bytes_of ''BITMAP '') = 7"
    by (simp add: bytes_of_def)
  have b: "fifth_comma (bytes_of ''BITMAP '' @ t) 0 0 = fifth_comma t 7 0" for t
    by (simp add: bytes_of_def comma_def)
  show ?thesis
    by (simp add: bitmap_line_def b a len)
qed

lemma HasPrefix_line: "HasPrefix (bitmap_line x y rb h m @ rest) (bytes_of ''BITMAP'')"
  by (simp add: HasPrefix_def bitmap_line_def bytes_of_def)

lemma ParseBitmapHeader_line:
  assumes "0 \<le> x" "x < 2 ^ 63" "0 \<le> y" "y < 2 ^ 63" "0 \<le> rb" "rb < 2 ^ 63"
    "0 \<le> h" "h < 2 ^ 63" "0 \<le> m" "m < 2 ^ 63"
  shows "ParseBitmapHeader (bitmap_line x y rb h m @ rest) =
     Inr \<lparr>RowBytes = rb, Width = rb * 8, Height = h, HeaderEnd = int (length (bitmap_line x y rb h m))\<rparr>"
proof -
  have "bitmap_line x y rb h m \<noteq> []"
    by (simp add: bitmap_line_def bytes_of_def)
  then show ?thesis
    using Sscanf_BITMAP_line[OF assms, of rest]
    by (simp add: ParseBitmapHeader_def HasPrefix_line fifth_comma_line)
qed

lemma line_example: "bytes_of ''BITMAP 0,0,3,10,1,'' = bitmap_line 0 0 3 10 1"
  by (simp add: bitmap_line_def itoa_def digits_of.simps bytes_of_def comma_def)

lemma fifth_comma_none:
  "int (length (filter (\<lambda>b. b = comma) bs)) + c < 5 \<Longrightarrow> fifth_comma bs i c = -1"
  by (induction bs arbitrary: i c) auto

text \<open>
  C2. A buffer that begins with the text \<^verbatim>\<open>BITMAP 0,0,3,10,1,\<close> parses to row bytes 3,
  width 24, height 10, and the payload starts at offset 18, one past the fifth comma,
  which is the byte at index 17. A buffer that does not start with \<^verbatim>\<open>BITMAP\<close> gives the
  error "not a BITMAP line"; one that starts with \<^verbatim>\<open>BITMAP\<close> and holds fewer than five
  commas gives "invalid BITMAP format".
\<close>

theorem ParseBitmapHeader_cases:
  "(\<forall>rest. ParseBitmapHeader (bytes_of ''BITMAP 0,0,3,10,1,'' @ rest)
             = Inr \<lparr>RowBytes = 3, Width = 24, Height = 10, HeaderEnd = 18\<rparr>
           \<and> (bytes_of ''BITMAP 0,0,3,10,1,'' @ rest) ! 17 = comma
           \<and> length (filter (\<lambda>b. b = comma) (take 17 (bytes_of ''BITMAP 0,0,3,10,1,'' @ rest))) = 4)
   \<and> (\<forall>body. \<not> HasPrefix body (bytes_of ''BITMAP'')
          \<longrightarrow> ParseBitmapHeader body = Inl NotABitmapLine)
   \<and> (\<forall>body. HasPrefix body (bytes_of ''BITMAP'') \<and> length (filter (\<lambda>b. b = comma) body) < 5
          \<longrightarrow> ParseBitmapHeader body = Inl InvalidHeaderFormat)"
proof (intro conjI allI impI)
  fix rest
  have "length (bitmap_line 0 0 3 10 1) = 18"
    unfolding line_example[symmetric] by (simp add: bytes_of_def)
  then show "ParseBitmapHeader (bytes_of ''BITMAP 0,0,3,10,1,'' @ rest)
          = Inr \<lparr>RowBytes = 3, Width = 24, Height = 10, HeaderEnd = 18\<rparr>"
    unfolding line_example by (simp add: ParseBitmapHeader_line)
  show "(bytes_of ''BITMAP 0,0,3,10,1,'' @ rest) ! 17 = comma"
    by (simp add: bytes_of_def comma_def)
  show "length (filter (\<lambda>b. b = comma) (take 17 (bytes_of ''BITMAP 0,0,3,10,1,'' @ rest))) = 4"
    by (simp add: bytes_of_def comma_def)
next
  fix body
  assume "\<not> HasPrefix body (bytes_of ''BITMAP'')"
  then show "ParseBitmapHeader body = Inl NotABitmapLine"
    by (simp add: ParseBitmapHeader_def)
next
  fix body
  assume "HasPrefix body (bytes_of ''BITMAP'') \<and> length (filter (\<lambda>b. b = comma) body) < 5"
  then show "ParseBitmapHeader body = Inl InvalidHeaderFormat"
    using fifth_comma_none[of body 0 0] by (simp add: ParseBitmapHeader_def)
qed

theorem ParseBitmapHeader_cases_witness:
  "ParseBitmapHeader (bytes_of ''BITMAP 0,0,3,10,1,'' @ [0xFF, 0x2C, 0x00])
     = Inr \<lparr>RowBytes = 3, Width = 24, Height = 10, HeaderEnd = 18\<rparr>
   \<and> \<not> HasPrefix (bytes_of ''SIZE 3.0 mm'') (bytes_of ''BITMAP'')
   \<and> ParseBitmapHeader (bytes_of ''SIZE 3.0 mm'') = Inl NotABitmapLine
   \<and> HasPrefix (bytes_of ''BITMAP 0,0,3,10'') (bytes_of ''BITMAP'')
   \<and> length (filter (\<lambda>b. b = comma) (bytes_of ''BITMAP 0,0,3,10'')) < 5
   \<and> ParseBitmapHeader (bytes_of ''BITMAP 0,0,3,10'') = Inl InvalidHeaderFormat"
proof -
  have a: "\<not> HasPrefix (bytes_of ''SIZE 3.0 mm'') (bytes_of ''BITMAP'')"
    by (simp add: HasPrefix_def bytes_of_def)
  have b: "HasPrefix (bytes_of ''BITMAP 0,0,3,10'') (bytes_of ''BITMAP'')
           \<and> length (filter (\<lambda>b. b = comma) (bytes_of ''BITMAP 0,0,3,10'')) < 5"
    by (simp add: HasPrefix_def bytes_of_def comma_def)
  from ParseBitmapHeader_cases a b show ?thesis by blast
qed

section \<open>Out-of-range reads\<close>

text \<open>
  C9. The claim: for a coordinate outside the visible rectangle \<open>IsWhite\<close> returns false
  and \<open>IsBlack\<close> returns true instead of faulting. \<open>IsWhite\<close> and \<open>IsBlack\<close> call \<open>bit\<close>
  with no bounds check, unlike the sibling \<open>At\<close>. On the image \<open>NewBinary(8, 1)\<close> the
  coordinate \<open>(8, 0)\<close> lies outside the rectangle: \<open>At\<close> answers gray 0 there, while
  \<open>IsWhite\<close> and \<open>IsBlack\<close> index \<open>Pix[1]\<close> of a one-byte buffer and panic.
\<close>

theorem IsWhite_IsBlack_out_of_range_panic:
  "NewBinary 8 1 = Inr \<lparr>Pix = [0], Stride = 1, Rect = \<lparr>MinX = 0, MinY = 0, MaxX = 8, MaxY = 1\<rparr>\<rparr>
   \<and> \<not> Pt_In 8 0 \<lparr>MinX = 0, MinY = 0, MaxX = 8, MaxY = 1\<rparr>
   \<and> IsWhite \<lparr>Pix = [0], Stride = 1, Rect = \<lparr>MinX = 0, MinY = 0, MaxX = 8, MaxY = 1\<rparr>\<rparr> 8 0 = Inl Panic
   \<and> IsBlack \<lparr>Pix = [0], Stride = 1, Rect = \<lparr>MinX = 0, MinY = 0, MaxX = 8, MaxY = 1\<rparr>\<rparr> 8 0 = Inl Panic
   \<and> At \<lparr>Pix = [0], Stride = 1, Rect = \<lparr>MinX = 0, MinY = 0, MaxX = 8, MaxY = 1\<rparr>\<rparr> 8 0 = Inr 0"
  by (simp add: NewBinary_def Pt_In_def IsWhite_def IsBlack_def At_def bit_px_def bindE_def
      index_def pixOffset_def signed_divide_int_def signed_modulo_int_def)

end
